theory Spec2Isabelle
  imports Complex_Main "HOL-Library.Char_ord" "HOL-Library.List_Lexorder"
    "HOL-Library.Product_Lexorder"
begin

section \<open>Python exceptions\<close>

text \<open>
  The exceptions that the modelled functions of \<^verbatim>\<open>mapentity/models.py\<close> raise or catch.
  A function that can raise returns \<open>error + 'a\<close>, with \<open>Inl\<close> for the exception.
\<close>

datatype error =
    AssertionError
  | ZeroDivisionError
  | ValueError
  | KeyError
  | DoesNotExist
  | FieldError
  | OperationalError
  | MethodNotAllowed
  | AttributeError
  | TypeError
  | OverflowError

section \<open>Entity kinds and permissions\<close>

definition ENTITY_LAYER :: string where "ENTITY_LAYER = ''layer''"
definition ENTITY_LIST :: string where "ENTITY_LIST = ''list''"
definition ENTITY_DATATABLE_LIST :: string where "ENTITY_DATATABLE_LIST = ''-drf-list''"
definition ENTITY_FORMAT_LIST :: string where "ENTITY_FORMAT_LIST = ''format_list''"
definition ENTITY_DETAIL :: string where "ENTITY_DETAIL = ''detail''"
definition ENTITY_MAPIMAGE :: string where "ENTITY_MAPIMAGE = ''mapimage''"
definition ENTITY_DOCUMENT :: string where "ENTITY_DOCUMENT = ''document''"
definition ENTITY_MARKUP :: string where "ENTITY_MARKUP = ''markup''"
definition ENTITY_CREATE :: string where "ENTITY_CREATE = ''add''"
definition ENTITY_UPDATE :: string where "ENTITY_UPDATE = ''update''"
definition ENTITY_DELETE :: string where "ENTITY_DELETE = ''delete''"
definition ENTITY_UPDATE_GEOM :: string where "ENTITY_UPDATE_GEOM = ''update_geom''"

definition ENTITY_KINDS :: "string list" where
  "ENTITY_KINDS =
     [ENTITY_LAYER, ENTITY_LIST, ENTITY_DATATABLE_LIST, ENTITY_FORMAT_LIST, ENTITY_DETAIL,
      ENTITY_MAPIMAGE, ENTITY_DOCUMENT, ENTITY_MARKUP, ENTITY_CREATE, ENTITY_UPDATE,
      ENTITY_DELETE, ENTITY_UPDATE_GEOM]"

definition ENTITY_PERMISSION_CREATE :: string where "ENTITY_PERMISSION_CREATE = ''add''"
definition ENTITY_PERMISSION_READ :: string where "ENTITY_PERMISSION_READ = ''read''"
definition ENTITY_PERMISSION_UPDATE :: string where "ENTITY_PERMISSION_UPDATE = ''change''"
definition ENTITY_PERMISSION_DELETE :: string where "ENTITY_PERMISSION_DELETE = ''delete''"
definition ENTITY_PERMISSION_EXPORT :: string where "ENTITY_PERMISSION_EXPORT = ''export''"
definition ENTITY_PERMISSION_UPDATE_GEOM :: string where
  "ENTITY_PERMISSION_UPDATE_GEOM = ''change_geom''"

definition ENTITY_PERMISSIONS :: "string list" where
  "ENTITY_PERMISSIONS =
     [ENTITY_PERMISSION_CREATE, ENTITY_PERMISSION_READ, ENTITY_PERMISSION_UPDATE,
      ENTITY_PERMISSION_UPDATE_GEOM, ENTITY_PERMISSION_DELETE, ENTITY_PERMISSION_EXPORT]"

text \<open>
  A dict literal is kept as the list of its items in source order; \<open>dict_get\<close> is
  Python's \<^verbatim>\<open>d.get(key, default)\<close>. The keys of every literal below are pairwise
  different, so the first item found is the only one.
\<close>

definition dict_get :: "('k \<times> 'v) list \<Rightarrow> 'k \<Rightarrow> 'v \<Rightarrow> 'v" where
  "dict_get d k dflt = (case map_of d k of None \<Rightarrow> dflt | Some v \<Rightarrow> v)"

definition operations :: "(string \<times> string) list" where
  "operations =
     [(ENTITY_CREATE, ENTITY_PERMISSION_CREATE),
      (ENTITY_UPDATE, ENTITY_PERMISSION_UPDATE),
      (ENTITY_UPDATE_GEOM, ENTITY_PERMISSION_UPDATE_GEOM),
      (ENTITY_DELETE, ENTITY_PERMISSION_DELETE),
      (ENTITY_DETAIL, ENTITY_PERMISSION_READ),
      (ENTITY_LAYER, ENTITY_PERMISSION_READ),
      (ENTITY_LIST, ENTITY_PERMISSION_READ),
      (ENTITY_DATATABLE_LIST, ENTITY_PERMISSION_READ),
      (ENTITY_MARKUP, ENTITY_PERMISSION_READ),
      (ENTITY_FORMAT_LIST, ENTITY_PERMISSION_EXPORT),
      (ENTITY_MAPIMAGE, ENTITY_PERMISSION_EXPORT),
      (ENTITY_DOCUMENT, ENTITY_PERMISSION_EXPORT)]"

text \<open>
  \<^verbatim>\<open>get_entity_kind_permission(cls, entity_kind)\<close>: look the kind up, falling back to the
  argument itself, then \<^verbatim>\<open>assert perm in ENTITY_PERMISSIONS\<close>. The class argument is
  not read. The argument is a string, as every caller in the package passes one.
\<close>

definition get_entity_kind_permission :: "string \<Rightarrow> error + string" where
  "get_entity_kind_permission entity_kind =
     (let perm = dict_get operations entity_kind entity_kind
      in if perm \<in> set ENTITY_PERMISSIONS then Inr perm else Inl AssertionError)"

section \<open>REST permissions\<close>

text \<open>
  \<^verbatim>\<open>MapEntityRestPermissions.perms_map\<close>: for each HTTP method the list of permission
  templates, as the class body writes it.
\<close>

definition perms_map :: "(string \<times> string list) list" where
  "perms_map =
     [(''GET'', [''%(app_label)s.read_%(model_name)s'']),
      (''OPTIONS'', [''%(app_label)s.read_%(model_name)s'']),
      (''HEAD'', [''%(app_label)s.read_%(model_name)s'']),
      (''POST'', [''%(app_label)s.add_%(model_name)s'']),
      (''PUT'', [''%(app_label)s.change_%(model_name)s'']),
      (''PATCH'', [''%(app_label)s.change_%(model_name)s'']),
      (''DELETE'', [''%(app_label)s.delete_%(model_name)s''])]"

text \<open>
  Python's \<^verbatim>\<open>template % kwargs\<close> for the one conversion the templates use,
  \<^verbatim>\<open>%(key)s\<close>: the text between the parentheses is looked up in the mapping (KeyError
  when absent) and pasted in without being scanned again. Any other use of \<^verbatim>\<open>%\<close>
  is answered with ValueError (Python's "unsupported format character").
\<close>

function percent_format :: "(string \<rightharpoonup> string) \<Rightarrow> string \<Rightarrow> error + string" where
  "percent_format kwargs [] = Inr []"
| "percent_format kwargs (c # cs) =
     (if c = CHR ''%'' then
        (case cs of
           CHR ''('' # rest \<Rightarrow>
             (case dropWhile (\<lambda>x. x \<noteq> CHR '')'') rest of
                CHR '')'' # CHR ''s'' # tail \<Rightarrow>
                  (case kwargs (takeWhile (\<lambda>x. x \<noteq> CHR '')'') rest) of
                     None \<Rightarrow> Inl KeyError
                   | Some v \<Rightarrow>
                       (case percent_format kwargs tail of
                          Inl e \<Rightarrow> Inl e
                        | Inr out \<Rightarrow> Inr (v @ out)))
              | _ \<Rightarrow> Inl ValueError)
         | _ \<Rightarrow> Inl ValueError)
      else (case percent_format kwargs cs of Inl e \<Rightarrow> Inl e | Inr out \<Rightarrow> Inr (c # out)))"
  by pat_completeness auto
termination
proof (relation "measure (\<lambda>(kwargs, s). length s)", goal_cases)
  case 1
  show ?case by simp
next
  case (2 kwargs c cs x21 x22 x21a x22a x21b x22b)
  have "length (dropWhile (\<lambda>x. x \<noteq> CHR '')'') x22) \<le> length x22"
    by (rule length_dropWhile_le)
  with 2 show ?case by simp
next
  case 3
  then show ?case by simp
qed

text \<open>
  The options of a model class (\<^verbatim>\<open>cls._meta\<close>), as far as this module reads them.
\<close>

record model_meta =
  app_label :: string
  model_name :: string

text \<open>
  How the REST toolkit's \<^verbatim>\<open>DjangoModelPermissions.get_required_permissions\<close> reads
  \<^verbatim>\<open>perms_map\<close>: a method that is no key raises MethodNotAllowed, otherwise every
  template of the method is filled in with the model's app label and model name.
\<close>

fun format_all :: "(string \<rightharpoonup> string) \<Rightarrow> string list \<Rightarrow> error + string list" where
  "format_all kwargs [] = Inr []"
| "format_all kwargs (t # ts) =
     (case percent_format kwargs t of
        Inl e \<Rightarrow> Inl e
      | Inr p \<Rightarrow> (case format_all kwargs ts of Inl e \<Rightarrow> Inl e | Inr ps \<Rightarrow> Inr (p # ps)))"

definition get_required_permissions :: "string \<Rightarrow> model_meta \<Rightarrow> error + string list" where
  "get_required_permissions method opts =
     (case map_of perms_map method of
        None \<Rightarrow> Inl MethodNotAllowed
      | Some templates \<Rightarrow>
          format_all [''app_label'' \<mapsto> app_label opts, ''model_name'' \<mapsto> model_name opts]
            templates)"

section \<open>URLs derived from the model name\<close>

text \<open>
  \<^verbatim>\<open>str.lower()\<close> on the letters A to Z; every other character is kept.
\<close>

definition lower_char :: "char \<Rightarrow> char" where
  "lower_char c =
     (case map_of (zip ''ABCDEFGHIJKLMNOPQRSTUVWXYZ'' ''abcdefghijklmnopqrstuvwxyz'') c of
        None \<Rightarrow> c
      | Some l \<Rightarrow> l)"

definition lower :: "string \<Rightarrow> string" where
  "lower s = map lower_char s"

definition get_layer_url :: "model_meta \<Rightarrow> string" where
  "get_layer_url opts =
     ''/api/'' @ lower (model_name opts) @ ''/drf/'' @ lower (model_name opts) @ ''s.geojson''"

definition get_datatablelist_url :: "model_meta \<Rightarrow> string" where
  "get_datatablelist_url opts =
     ''/api/'' @ lower (model_name opts) @ ''/drf/'' @ lower (model_name opts)
       @ ''s.datatables''"

section \<open>Model classes, instances and the audit log\<close>

text \<open>
  A datetime is its calendar fields, counted as microseconds on the clock they are written
  in, together with its \<^verbatim>\<open>tzinfo\<close>; \<^verbatim>\<open>dt.replace(tzinfo=utc)\<close> keeps the fields
  and sets the zone. The dates of one column come back from the database in one zone, so
  their order is the order of these fields.
\<close>

datatype tzinfo = UTC | Zone string

record datetime =
  clock :: int
  tz :: "tzinfo option"

definition replace_tzinfo :: "datetime \<Rightarrow> tzinfo \<Rightarrow> datetime" where
  "replace_tzinfo d z = d\<lparr>tz := Some z\<rparr>"

text \<open>
  A geometry is known by the extent \<^verbatim>\<open>(xmin, ymin, xmax, ymax)\<close> it has once
  transformed to a given SRID. The coordinates are finite floats, written as the real
  numbers they equal; the difference of two of them is taken as it is.
\<close>

type_synonym extent = "real \<times> real \<times> real \<times> real"

record geometry =
  extent_in :: "nat \<Rightarrow> extent"

text \<open>
  What this module reads of a model class: its options, the names of its fields, and the
  outcome of \<^verbatim>\<open>ContentType.objects.get_for_model(cls).pk\<close> (a key, or the exception).
\<close>

record entity_class =
  cls_meta :: model_meta
  cls_field_names :: "string list"
  content_type_for_model :: "error + nat"

text \<open>
  The values that an attribute of an instance can hold, as far as \<^verbatim>\<open>get_date_update\<close>
  tells them apart: \<^verbatim>\<open>None\<close>, a datetime, a date (its day number), a string, an integer.
\<close>

datatype field_value =
    NoneValue
  | DateTimeValue datetime
  | DateValue int
  | StrValue string
  | IntValue int

text \<open>
  What this module reads of an instance: its class, its primary key, the attributes that
  \<^verbatim>\<open>getattr\<close> finds under a name (absent, or a value), the geometries among them,
  and the result of \<^verbatim>\<open>get_printcontext()\<close> when the instance has that method.
\<close>

record map_entity =
  cls :: entity_class
  pk :: nat
  attrs :: "string \<rightharpoonup> field_value"
  geom_attrs :: "string \<rightharpoonup> geometry option"
  get_printcontext :: "string option"

text \<open>
  The rows of the user table and of the admin log (\<^verbatim>\<open>django.contrib.admin\<close>'s
  \<^verbatim>\<open>LogEntry\<close>, which the module's proxy class reads). The log stores the edited
  object's key in \<^verbatim>\<open>object_id\<close>; the lookup value is compared with it as a key.
\<close>

record user =
  user_pk :: nat
  username :: string

record log_entry =
  le_pk :: nat
  action_time :: datetime
  user_id :: nat
  content_type_id :: "nat option"
  object_id :: nat
  action_flag :: nat

record database =
  users :: "user list"
  log_entries :: "log_entry list"

definition ADDITION :: nat where "ADDITION = 1"
definition CHANGE :: nat where "CHANGE = 2"
definition DELETION :: nat where "DELETION = 3"

text \<open>
  \<^verbatim>\<open>get_content_type_id\<close>: the content type's key; \<^verbatim>\<open>None\<close> when the lookup raises
  OperationalError (the table is not yet created); any other exception goes on.
\<close>

definition get_content_type_id :: "entity_class \<Rightarrow> error + nat option" where
  "get_content_type_id c =
     (case content_type_for_model c of
        Inr k \<Rightarrow> Inr (Some k)
      | Inl OperationalError \<Rightarrow> Inr None
      | Inl e \<Rightarrow> Inl e)"

text \<open>
  Query sets, evaluated: \<open>order_by\<close> sorts the rows by a key, \<open>last_qs\<close> is
  \<^verbatim>\<open>.last()\<close> (the last row, \<^verbatim>\<open>None\<close> on an empty result), \<open>distinct_qs\<close> drops
  repeated rows. \<open>related_user\<close> follows the foreign key \<^verbatim>\<open>log_entry.user\<close>.
\<close>

definition order_by :: "('r \<Rightarrow> nat) \<Rightarrow> 'r list \<Rightarrow> 'r list" where
  "order_by k rows = sort_key k rows"

definition last_qs :: "'r list \<Rightarrow> 'r option" where
  "last_qs rows = (if rows = [] then None else Some (last rows))"

definition distinct_qs :: "'r list \<Rightarrow> 'r list" where
  "distinct_qs rows = remdups rows"

definition related_user :: "database \<Rightarrow> log_entry \<Rightarrow> error + user" where
  "related_user db e =
     (case find (\<lambda>u. user_pk u = user_id e) (users db) of
        None \<Rightarrow> Inl DoesNotExist
      | Some u \<Rightarrow> Inr u)"

text \<open>
  \<^verbatim>\<open>creator\<close>: the log entries of this object with the ADDITION flag, ordered by
  key, the last one; then \<^verbatim>\<open>log_entry and log_entry.user\<close> (a model instance is
  truthy, so the second operand is the result whenever an entry was found).
\<close>

definition creator :: "database \<Rightarrow> map_entity \<Rightarrow> error + user option" where
  "creator db self =
     (case get_content_type_id (cls self) of
        Inl e \<Rightarrow> Inl e
      | Inr ct \<Rightarrow>
          (case last_qs (order_by le_pk
                  (filter (\<lambda>e. content_type_id e = ct \<and> object_id e = pk self
                                 \<and> action_flag e = ADDITION)
                     (log_entries db))) of
             None \<Rightarrow> Inr None
           | Some log_entry \<Rightarrow>
               (case related_user db log_entry of
                  Inl e \<Rightarrow> Inl e
                | Inr u \<Rightarrow> Inr (Some u))))"

text \<open>
  \<^verbatim>\<open>authors\<close> filters the user table through its join with the log: one row per
  pair of a user and a log entry of that user matching both conditions (conditions of one
  \<^verbatim>\<open>filter()\<close> call bear on the same related row). \<open>authors_rows\<close> is that join,
  \<open>authors\<close> the distinct users of it.
\<close>

definition authors_rows :: "database \<Rightarrow> nat option \<Rightarrow> nat \<Rightarrow> (user \<times> log_entry) list" where
  "authors_rows db ct key =
     concat (map (\<lambda>u. map (\<lambda>e. (u, e))
               (filter (\<lambda>e. user_id e = user_pk u \<and> content_type_id e = ct \<and> object_id e = key)
                  (log_entries db)))
       (users db))"

definition authors :: "database \<Rightarrow> map_entity \<Rightarrow> error + user list" where
  "authors db self =
     (case get_content_type_id (cls self) of
        Inl e \<Rightarrow> Inl e
      | Inr ct \<Rightarrow> Inr (distinct_qs (map fst (authors_rows db ct (pk self)))))"

text \<open>
  \<^verbatim>\<open>last_author\<close> orders \<^verbatim>\<open>authors\<close> by \<^verbatim>\<open>logentry__pk\<close>. The ordering column
  comes from the join the filter already made, and a distinct query selects its ordering
  column along with the user's, so the rows told apart are pairs of a user and a log
  key; the last of them in key order gives the user.
\<close>

definition last_author :: "database \<Rightarrow> map_entity \<Rightarrow> error + user option" where
  "last_author db self =
     (case get_content_type_id (cls self) of
        Inl e \<Rightarrow> Inl e
      | Inr ct \<Rightarrow>
          Inr (map_option fst
                 (last_qs (order_by snd
                    (distinct_qs (map (\<lambda>(u, e). (u, le_pk e))
                       (authors_rows db ct (pk self))))))))"

section \<open>Latest update of a model\<close>

text \<open>
  The settings this module reads: \<^verbatim>\<open>settings.MEDIA_ROOT\<close> and three keys of
  \<^verbatim>\<open>app_settings\<close>. Their values are fixed outside this module.
\<close>

record configuration =
  MEDIA_ROOT :: string
  MAP_CAPTURE_SIZE :: int
  DATE_UPDATE_FIELD_NAME :: string
  GEOM_FIELD_NAME :: string

text \<open>
  \<^verbatim>\<open>get_date_update\<close>: \<^verbatim>\<open>getattr(self, fname).replace(tzinfo=utc)\<close>. A missing
  attribute, \<^verbatim>\<open>None\<close> and a value without a \<^verbatim>\<open>replace\<close> method (an integer) raise
  AttributeError, which is answered with \<^verbatim>\<open>None\<close>. A string and a date have a
  \<^verbatim>\<open>replace\<close> method that takes no \<^verbatim>\<open>tzinfo\<close>: the call raises TypeError, which
  nothing catches.
\<close>

definition get_date_update :: "configuration \<Rightarrow> map_entity \<Rightarrow> error + datetime option" where
  "get_date_update conf self =
     (case attrs self (DATE_UPDATE_FIELD_NAME conf) of
        None \<Rightarrow> Inr None
      | Some NoneValue \<Rightarrow> Inr None
      | Some (DateTimeValue d) \<Rightarrow> Inr (Some (replace_tzinfo d UTC))
      | Some (DateValue n) \<Rightarrow> Inl TypeError
      | Some (StrValue t) \<Rightarrow> Inl TypeError
      | Some (IntValue n) \<Rightarrow> Inr None)"

text \<open>
  \<^verbatim>\<open>queryset.latest(fname)\<close>: FieldError when the model has no field of that name,
  DoesNotExist when there is no row, otherwise the first row in descending order of the
  column. \<open>is_null\<close> tells the rows whose column is null and \<open>key\<close> gives the place of
  a value in the column's order. Where the database puts the null rows is the backend's
  choice (\<open>nulls_high\<close>: null sorts above every value, as PostgreSQL does).
\<close>

definition latest ::
  "bool \<Rightarrow> string list \<Rightarrow> string \<Rightarrow> ('r \<Rightarrow> bool) \<Rightarrow> ('r \<Rightarrow> 'k::linorder) \<Rightarrow> 'r list
    \<Rightarrow> error + 'r" where
  "latest nulls_high field_names fname is_null key rows =
     (if fname \<notin> set field_names then Inl FieldError
      else
        let dated = filter (\<lambda>r. \<not> is_null r) rows;
            undated = filter is_null rows;
            newest = last_qs (sort_key key dated)
        in (case (if nulls_high then (case undated of [] \<Rightarrow> newest | r # _ \<Rightarrow> Some r)
                  else (case newest of None \<Rightarrow> (case undated of [] \<Rightarrow> None | r # _ \<Rightarrow> Some r)
                        | Some r \<Rightarrow> Some r)) of
              None \<Rightarrow> Inl DoesNotExist
            | Some r \<Rightarrow> Inr r))"

text \<open>
  \<^verbatim>\<open>BaseMapEntityMixin.latest_updated\<close>, on the rows of the class's table. The column
  of a row is the attribute of that name (null when the row has none); datetimes are
  ordered by their clock, dates and integers by their number, strings as lists of
  characters.
\<close>

definition column :: "string \<Rightarrow> map_entity \<Rightarrow> field_value" where
  "column fname r = (case attrs r fname of None \<Rightarrow> NoneValue | Some v \<Rightarrow> v)"

definition db_key :: "field_value \<Rightarrow> int \<times> string" where
  "db_key v =
     (case v of
        NoneValue \<Rightarrow> (0, [])
      | DateTimeValue d \<Rightarrow> (clock d, [])
      | DateValue n \<Rightarrow> (n, [])
      | StrValue t \<Rightarrow> (0, t)
      | IntValue n \<Rightarrow> (n, []))"

definition latest_updated ::
  "bool \<Rightarrow> configuration \<Rightarrow> entity_class \<Rightarrow> map_entity list \<Rightarrow> error + datetime option" where
  "latest_updated nulls_high conf c objects =
     (let fname = DATE_UPDATE_FIELD_NAME conf
      in case latest nulls_high (cls_field_names c) fname
                (\<lambda>r. column fname r = NoneValue) (\<lambda>r. db_key (column fname r)) objects of
           Inl DoesNotExist \<Rightarrow> Inr None
         | Inl FieldError \<Rightarrow> Inr None
         | Inl e \<Rightarrow> Inl e
         | Inr obj \<Rightarrow> get_date_update conf obj)"

text \<open>
  \<^verbatim>\<open>LogEntry\<close> overrides both methods: the date is \<^verbatim>\<open>action_time\<close>, a field of
  the admin log that is never null.
\<close>

definition LogEntry_field_names :: "string list" where
  "LogEntry_field_names =
     [''id'', ''action_time'', ''user'', ''content_type'', ''object_id'', ''object_repr'',
      ''action_flag'', ''change_message'']"

definition LogEntry_get_date_update :: "log_entry \<Rightarrow> datetime" where
  "LogEntry_get_date_update self = action_time self"

definition LogEntry_latest_updated :: "bool \<Rightarrow> database \<Rightarrow> error + datetime option" where
  "LogEntry_latest_updated nulls_high db =
     (case latest nulls_high LogEntry_field_names ''action_time''
             (\<lambda>e. False) (\<lambda>e. clock (action_time e)) (log_entries db) of
        Inl DoesNotExist \<Rightarrow> Inr None
      | Inl FieldError \<Rightarrow> Inr None
      | Inl e \<Rightarrow> Inl e
      | Inr obj \<Rightarrow> Inr (Some (LogEntry_get_date_update obj)))"

section \<open>The map image of an object\<close>

text \<open>
  The file system as this module sees it: the directories that exist and the files with
  their contents. \<open>PlaceholderImage n\<close> is the grey \<open>n\<close> by \<open>n\<close> picture with the text
  "This object has no geometry" that \<^verbatim>\<open>prepare_map_image\<close> draws itself.
\<close>

datatype file_content = PlaceholderImage int | OtherContent nat

record world =
  dirs :: "string set"
  files :: "string \<rightharpoonup> file_content"

definition os_path_exists :: "world \<Rightarrow> string \<Rightarrow> bool" where
  "os_path_exists w p = (p \<in> dirs w \<or> files w p \<noteq> None)"

text \<open>\<^verbatim>\<open>os.path.join\<close> of two components, on a POSIX system.\<close>

definition os_path_join :: "string \<Rightarrow> string \<Rightarrow> string" where
  "os_path_join a b =
     (if b \<noteq> [] \<and> hd b = CHR ''/'' then b
      else if a = [] \<or> last a = CHR ''/'' then a @ b
      else a @ ''/'' @ b)"

text \<open>
  \<^verbatim>\<open>os.makedirs(p)\<close> creates the directory and the missing ones above it: every
  prefix of the path that ends before a separator.
\<close>

definition path_prefixes :: "string \<Rightarrow> string list" where
  "path_prefixes p = map (\<lambda>i. take i p) (filter (\<lambda>i. p ! i = CHR ''/'') [1..<length p])"

definition os_makedirs :: "string \<Rightarrow> world \<Rightarrow> world" where
  "os_makedirs p w = w\<lparr>dirs := dirs w \<union> set (path_prefixes p) \<union> {p}\<rparr>"

definition image_save :: "string \<Rightarrow> file_content \<Rightarrow> world \<Rightarrow> world" where
  "image_save path img w = w\<lparr>files := (files w)(path \<mapsto> img)\<rparr>"

text \<open>\<^verbatim>\<open>str(n)\<close> of a key that is a natural number.\<close>

function str_nat :: "nat \<Rightarrow> string" where
  "str_nat n =
     (if n < 10 then [''0123456789'' ! n]
      else str_nat (n div 10) @ [''0123456789'' ! (n mod 10)])"
  by pat_completeness auto
termination
  by (relation "measure id") auto

declare str_nat.simps [simp del]

text \<open>
  A Python float is a double: a finite one, written as the real number it equals, an
  infinity, or NaN (the sign of zero is not kept).
\<close>

datatype pyfloat = Finite real | PosInf | NegInf | NaN

text \<open>
  The functions of the package that this module calls and whose code lies in other
  modules (\<^verbatim>\<open>helpers.py\<close>, the registry) or in the framework; they are parameters of
  the model. \<open>is_file_uptodate\<close> and \<open>capture_map_image\<close> work on the file system, so
  they take and return it. With them comes \<open>float_round\<close>, the rounding of the platform's
  floating-point unit: the float that stands for the exact result of an operation (the
  nearest double, an infinity beyond the range of doubles).
\<close>

record helpers =
  float_round :: "real \<Rightarrow> pyfloat"
  smart_urljoin :: "string \<Rightarrow> string \<Rightarrow> string"
  is_file_uptodate :: "string \<Rightarrow> datetime option \<Rightarrow> world \<Rightarrow> bool \<times> world"
  capture_map_image :: "string \<Rightarrow> string \<Rightarrow> int \<Rightarrow> string \<Rightarrow> string option \<Rightarrow> world \<Rightarrow> world"
  url_name :: "model_meta \<Rightarrow> string \<Rightarrow> string"
  reverse :: "string \<Rightarrow> string list \<Rightarrow> string"

definition capture_map_image_waitfor :: string where
  "capture_map_image_waitfor = ''.leaflet-tile-loaded''"

definition get_detail_url :: "helpers \<Rightarrow> map_entity \<Rightarrow> string" where
  "get_detail_url h self =
     reverse h (url_name h (cls_meta (cls self)) ENTITY_DETAIL) [str_nat (pk self)]"

definition get_geom :: "configuration \<Rightarrow> map_entity \<Rightarrow> geometry option" where
  "get_geom conf self =
     (case geom_attrs self (GEOM_FIELD_NAME conf) of None \<Rightarrow> None | Some v \<Rightarrow> v)"

text \<open>
  \<^verbatim>\<open>get_map_image_path\<close> creates the folder \<^verbatim>\<open>MEDIA_ROOT/maps\<close> when it is missing
  and returns the path \<^verbatim>\<open>'%s-%s.png' % (model_name, pk)\<close> inside it.
\<close>

definition get_map_image_path :: "configuration \<Rightarrow> map_entity \<Rightarrow> world \<Rightarrow> string \<times> world" where
  "get_map_image_path conf self w =
     (let basefolder = os_path_join (MEDIA_ROOT conf) ''maps'';
          w' = (if \<not> os_path_exists w basefolder then os_makedirs basefolder w else w)
      in (os_path_join basefolder
            (model_name (cls_meta (cls self)) @ ''-'' @ str_nat (pk self) @ ''.png''), w'))"

text \<open>
  Floating-point multiplication and division (by a divisor that is not zero): the exact
  result rounded, with the rules of IEEE 754 for infinities and NaN.
\<close>

definition float_sign :: "pyfloat \<Rightarrow> int" where
  "float_sign x =
     (case x of
        Finite a \<Rightarrow> (if 0 < a then 1 else if a < 0 then - 1 else 0)
      | PosInf \<Rightarrow> 1
      | NegInf \<Rightarrow> - 1
      | NaN \<Rightarrow> 0)"

definition signed_inf :: "int \<Rightarrow> pyfloat" where
  "signed_inf s = (if 0 < s then PosInf else if s < 0 then NegInf else NaN)"

definition float_mul :: "(real \<Rightarrow> pyfloat) \<Rightarrow> pyfloat \<Rightarrow> pyfloat \<Rightarrow> pyfloat" where
  "float_mul fr x y =
     (case (x, y) of
        (Finite a, Finite b) \<Rightarrow> fr (a * b)
      | (NaN, _) \<Rightarrow> NaN
      | (_, NaN) \<Rightarrow> NaN
      | _ \<Rightarrow> signed_inf (float_sign x * float_sign y))"

definition float_div :: "(real \<Rightarrow> pyfloat) \<Rightarrow> pyfloat \<Rightarrow> pyfloat \<Rightarrow> pyfloat" where
  "float_div fr x y =
     (case (x, y) of
        (Finite a, Finite b) \<Rightarrow> fr (a / b)
      | (NaN, _) \<Rightarrow> NaN
      | (_, NaN) \<Rightarrow> NaN
      | (Finite a, _) \<Rightarrow> Finite 0
      | (_, Finite b) \<Rightarrow> signed_inf (float_sign x * float_sign y)
      | _ \<Rightarrow> NaN)"

text \<open>
  The arithmetic of Python, with its exceptions. An integer operand of a float operation is
  converted first (OverflowError when it is too large); true division by zero raises
  ZeroDivisionError; \<^verbatim>\<open>math.log(x, base)\<close> is the quotient of two logarithms, each a
  ValueError outside the positive numbers; \<^verbatim>\<open>round\<close> sends halves to the even
  neighbour; \<^verbatim>\<open>round\<close> and \<^verbatim>\<open>math.ceil\<close> raise OverflowError on an infinity and
  ValueError on NaN.
\<close>

definition bind_error :: "error + 'a \<Rightarrow> ('a \<Rightarrow> error + 'b) \<Rightarrow> error + 'b" where
  "bind_error r f = (case r of Inl e \<Rightarrow> Inl e | Inr v \<Rightarrow> f v)"

definition int_to_float :: "(real \<Rightarrow> pyfloat) \<Rightarrow> int \<Rightarrow> error + pyfloat" where
  "int_to_float fr n =
     (case fr (of_int n) of
        PosInf \<Rightarrow> Inl OverflowError
      | NegInf \<Rightarrow> Inl OverflowError
      | v \<Rightarrow> Inr v)"

definition py_truediv :: "(real \<Rightarrow> pyfloat) \<Rightarrow> pyfloat \<Rightarrow> pyfloat \<Rightarrow> error + pyfloat" where
  "py_truediv fr a b = (if b = Finite 0 then Inl ZeroDivisionError else Inr (float_div fr a b))"

definition m_log :: "(real \<Rightarrow> pyfloat) \<Rightarrow> pyfloat \<Rightarrow> error + pyfloat" where
  "m_log fr x =
     (case x of
        Finite a \<Rightarrow> (if 0 < a then Inr (fr (ln a)) else Inl ValueError)
      | PosInf \<Rightarrow> Inr PosInf
      | NegInf \<Rightarrow> Inl ValueError
      | NaN \<Rightarrow> Inr NaN)"

definition math_log :: "(real \<Rightarrow> pyfloat) \<Rightarrow> pyfloat \<Rightarrow> pyfloat \<Rightarrow> error + pyfloat" where
  "math_log fr x base =
     bind_error (m_log fr x) (\<lambda>num. bind_error (m_log fr base) (\<lambda>den. py_truediv fr num den))"

definition py_round :: "real \<Rightarrow> int" where
  "py_round x =
     (let f = \<lfloor>x\<rfloor>; d = x - of_int f
      in if d < 1 / 2 then f else if 1 / 2 < d then f + 1 else if even f then f else f + 1)"

definition round_float :: "pyfloat \<Rightarrow> error + int" where
  "round_float x =
     (case x of
        Finite a \<Rightarrow> Inr (py_round a)
      | NaN \<Rightarrow> Inl ValueError
      | _ \<Rightarrow> Inl OverflowError)"

definition math_ceil :: "pyfloat \<Rightarrow> error + int" where
  "math_ceil x =
     (case x of
        Finite a \<Rightarrow> Inr \<lceil>a\<rceil>
      | NaN \<Rightarrow> Inl ValueError
      | _ \<Rightarrow> Inl OverflowError)"

text \<open>
  \<^verbatim>\<open>2 ** n\<close> as an operand of a float multiplication: an integer for \<open>n\<close> from zero
  on, which the multiplication converts, and the float power for a negative \<open>n\<close>.
\<close>

definition pow2_operand :: "(real \<Rightarrow> pyfloat) \<Rightarrow> int \<Rightarrow> error + pyfloat" where
  "pow2_operand fr n =
     (if 0 \<le> n then int_to_float fr (2 ^ nat n) else Inr (fr (1 / 2 ^ nat (- n))))"

definition RADIUS :: int where "RADIUS = 6378137"

text \<open>\<^verbatim>\<open>CIRCUM = 2 * math.pi * RADIUS\<close>.\<close>

definition CIRCUM :: "(real \<Rightarrow> pyfloat) \<Rightarrow> error + pyfloat" where
  "CIRCUM fr =
     bind_error (int_to_float fr 2) (\<lambda>two.
     bind_error (int_to_float fr RADIUS) (\<lambda>radius.
       Inr (float_mul fr (float_mul fr two (fr pi)) radius)))"

text \<open>
  The branch \<^verbatim>\<open>if length:\<close> of \<^verbatim>\<open>prepare_map_image\<close>, statement by statement:
  \<^verbatim>\<open>length_per_tile = 256 * length / hint_size\<close>, the circumference,
  \<^verbatim>\<open>zoom = round(math.log(CIRCUM / length_per_tile, 2))\<close> and
  \<^verbatim>\<open>size = math.ceil(length * 1.1 * 256 * 2 ** zoom / CIRCUM)\<close>. The length is the
  difference of two coordinates of the extent, taken as the float it has.
\<close>

definition capture_zoom_size :: "(real \<Rightarrow> pyfloat) \<Rightarrow> int \<Rightarrow> real \<Rightarrow> error + int \<times> int" where
  "capture_zoom_size fr hint_size length' =
     bind_error (int_to_float fr 256) (\<lambda>c256.
     bind_error (int_to_float fr hint_size) (\<lambda>hint.
     bind_error (py_truediv fr (float_mul fr c256 (Finite length')) hint) (\<lambda>length_per_tile.
     bind_error (CIRCUM fr) (\<lambda>circum.
     bind_error (py_truediv fr circum length_per_tile) (\<lambda>ratio.
     bind_error (int_to_float fr 2) (\<lambda>two.
     bind_error (math_log fr ratio two) (\<lambda>l.
     bind_error (round_float l) (\<lambda>zoom.
     bind_error (pow2_operand fr zoom) (\<lambda>p.
     bind_error
       (py_truediv fr
          (float_mul fr (float_mul fr (float_mul fr (Finite length') (fr (11 / 10))) c256) p)
          circum) (\<lambda>q.
     bind_error (math_ceil q) (\<lambda>size'. Inr (zoom, size'))))))))))))"

text \<open>
  \<^verbatim>\<open>get_map_image_extent(srid)\<close>: \<^verbatim>\<open>getattr\<close> without a default, then the
  extent of the geometry transformed to \<open>srid\<close>. A missing attribute and a \<^verbatim>\<open>None\<close>
  value raise AttributeError. (The transformation also reprojects the geometry held by the
  instance; nothing modelled here reads the geometry afterwards.)
\<close>

definition get_map_image_extent :: "configuration \<Rightarrow> map_entity \<Rightarrow> nat \<Rightarrow> error + extent" where
  "get_map_image_extent conf self srid =
     (case geom_attrs self (GEOM_FIELD_NAME conf) of
        Some (Some obj) \<Rightarrow> Inr (extent_in obj srid)
      | _ \<Rightarrow> Inl AttributeError)"

text \<open>
  \<^verbatim>\<open>prepare_map_image(self, rooturl)\<close>. The result is the returned boolean or the
  exception raised, with the file system as the call leaves it.
\<close>

definition prepare_map_image ::
  "helpers \<Rightarrow> configuration \<Rightarrow> map_entity \<Rightarrow> string \<Rightarrow> world \<Rightarrow> (error + bool) \<times> world" where
  "prepare_map_image h conf self rooturl w =
     (let (path, w1) = get_map_image_path conf self w
      in case get_date_update conf self of
           Inl e \<Rightarrow> (Inl e, w1)
         | Inr date_update \<Rightarrow>
      (let (uptodate, w2) = is_file_uptodate h path date_update w1
      in if uptodate then (Inr False, w2)
         else
           (case get_geom conf self of
              None \<Rightarrow>
                (let size' = MAP_CAPTURE_SIZE conf
                 in (Inr True, image_save path (PlaceholderImage size') w2))
            | Some geom \<Rightarrow>
                (let url = smart_urljoin h rooturl (get_detail_url h self)
                 in (case get_map_image_extent conf self 3857 of
                       Inl e \<Rightarrow> (Inl e, w2)
                     | Inr (x0, y0, x1, y1) \<Rightarrow>
                         (let length' = max (x1 - x0) (y1 - y0)
                          in (case (if length' \<noteq> 0
                                    then map_sum id snd
                                           (capture_zoom_size (float_round h) (MAP_CAPTURE_SIZE conf)
                                              length')
                                    else Inr (MAP_CAPTURE_SIZE conf)) of
                                Inl e \<Rightarrow> (Inl e, w2)
                              | Inr size' \<Rightarrow>
                                  (Inr True,
                                   capture_map_image h url path size' capture_map_image_waitfor
                                     (get_printcontext self) w2))))))))"

section \<open>Example data\<close>

text \<open>
  A small model class, one of its objects, a user table with an admin log, settings, helper
  functions and two file systems, on which the properties below are also evaluated.
\<close>

definition example_class :: entity_class where
  "example_class =
     \<lparr>cls_meta = \<lparr>app_label = ''test_app'', model_name = ''dummymodel''\<rparr>,
      cls_field_names = [''id'', ''name'', ''geom'', ''date_update''],
      content_type_for_model = Inr 7\<rparr>"

definition example_object :: map_entity where
  "example_object =
     \<lparr>cls = example_class, pk = 42,
      attrs = [''name'' \<mapsto> StrValue ''a dummy model'',
               ''date_update'' \<mapsto> DateTimeValue \<lparr>clock = 5000, tz = None\<rparr>],
      geom_attrs = [''geom'' \<mapsto> Some \<lparr>extent_in = (\<lambda>srid. (3, 4, 3, 4))\<rparr>],
      get_printcontext = None\<rparr>"

definition alice :: user where "alice = \<lparr>user_pk = 1, username = ''alice''\<rparr>"
definition bob :: user where "bob = \<lparr>user_pk = 2, username = ''bob''\<rparr>"

definition example_db :: database where
  "example_db =
     \<lparr>users = [alice, bob],
      log_entries =
        [\<lparr>le_pk = 10, action_time = \<lparr>clock = 100, tz = Some UTC\<rparr>, user_id = 1,
          content_type_id = Some 7, object_id = 42, action_flag = 1\<rparr>,
         \<lparr>le_pk = 12, action_time = \<lparr>clock = 300, tz = Some UTC\<rparr>, user_id = 2,
          content_type_id = Some 7, object_id = 42, action_flag = 1\<rparr>,
         \<lparr>le_pk = 11, action_time = \<lparr>clock = 200, tz = Some UTC\<rparr>, user_id = 2,
          content_type_id = Some 7, object_id = 42, action_flag = 2\<rparr>,
         \<lparr>le_pk = 13, action_time = \<lparr>clock = 400, tz = Some UTC\<rparr>, user_id = 1,
          content_type_id = Some 7, object_id = 42, action_flag = 2\<rparr>,
         \<lparr>le_pk = 14, action_time = \<lparr>clock = 500, tz = Some UTC\<rparr>, user_id = 2,
          content_type_id = Some 7, object_id = 43, action_flag = 1\<rparr>]\<rparr>"

definition example_objects :: "map_entity list" where
  "example_objects =
     [example_object,
      example_object\<lparr>pk := 43,
        attrs := [''name'' \<mapsto> StrValue ''another one'',
                  ''date_update'' \<mapsto> DateTimeValue \<lparr>clock = 9000, tz = None\<rparr>]\<rparr>,
      example_object\<lparr>pk := 44,
        attrs := [''name'' \<mapsto> StrValue ''a third one'',
                  ''date_update'' \<mapsto> DateTimeValue \<lparr>clock = 7000, tz = None\<rparr>]\<rparr>]"

definition example_conf :: configuration where
  "example_conf =
     \<lparr>MEDIA_ROOT = ''/srv/media'', MAP_CAPTURE_SIZE = 800,
      DATE_UPDATE_FIELD_NAME = ''date_update'', GEOM_FIELD_NAME = ''geom''\<rparr>"

definition example_helpers :: helpers where
  "example_helpers =
     \<lparr>float_round = Finite,
      smart_urljoin = (\<lambda>base path. base @ path),
      is_file_uptodate = (\<lambda>path date w. (files w path \<noteq> None \<and> date \<noteq> None, w)),
      capture_map_image =
        (\<lambda>url path size' waitfor printcontext w.
           w\<lparr>files := (files w)(path \<mapsto> OtherContent (nat size'))\<rparr>),
      url_name = (\<lambda>opts kind. app_label opts @ '':'' @ model_name opts @ ''_'' @ kind),
      reverse = (\<lambda>name args. ''/'' @ name @ concat (map (\<lambda>a. ''/'' @ a) args))\<rparr>"

definition empty_world :: world where
  "empty_world = \<lparr>dirs = {''/srv'', ''/srv/media''}, files = Map.empty\<rparr>"

definition captured_world :: world where
  "captured_world =
     \<lparr>dirs = {''/srv'', ''/srv/media'', ''/srv/media/maps''},
      files = [''/srv/media/maps/dummymodel-42.png'' \<mapsto> OtherContent 1]\<rparr>"


section \<open>Properties of the entity kinds\<close>

lemmas entity_consts =
  ENTITY_LAYER_def ENTITY_LIST_def ENTITY_DATATABLE_LIST_def ENTITY_FORMAT_LIST_def
  ENTITY_DETAIL_def ENTITY_MAPIMAGE_def ENTITY_DOCUMENT_def ENTITY_MARKUP_def
  ENTITY_CREATE_def ENTITY_UPDATE_def ENTITY_DELETE_def ENTITY_UPDATE_GEOM_def
  ENTITY_PERMISSION_CREATE_def ENTITY_PERMISSION_READ_def ENTITY_PERMISSION_UPDATE_def
  ENTITY_PERMISSION_DELETE_def ENTITY_PERMISSION_EXPORT_def ENTITY_PERMISSION_UPDATE_GEOM_def

lemma map_of_operations:
  "map_of operations =
     [''add'' \<mapsto> ''add'', ''update'' \<mapsto> ''change'', ''update_geom'' \<mapsto> ''change_geom'',
      ''delete'' \<mapsto> ''delete'', ''detail'' \<mapsto> ''read'', ''layer'' \<mapsto> ''read'',
      ''list'' \<mapsto> ''read'', ''-drf-list'' \<mapsto> ''read'', ''markup'' \<mapsto> ''read'',
      ''format_list'' \<mapsto> ''export'', ''mapimage'' \<mapsto> ''export'', ''document'' \<mapsto> ''export'']"
  by (rule ext) (simp add: operations_def entity_consts)

lemma set_ENTITY_PERMISSIONS:
  "set ENTITY_PERMISSIONS = {''add'', ''read'', ''change'', ''change_geom'', ''delete'', ''export''}"
  by (simp add: ENTITY_PERMISSIONS_def entity_consts)

lemma set_ENTITY_KINDS:
  "set ENTITY_KINDS =
     {''layer'', ''list'', ''-drf-list'', ''format_list'', ''detail'', ''mapimage'',
      ''document'', ''markup'', ''add'', ''update'', ''delete'', ''update_geom''}"
  by (simp add: ENTITY_KINDS_def entity_consts)

text \<open>
  C1. Every entity kind of \<open>ENTITY_KINDS\<close> is answered with a permission of
  \<open>ENTITY_PERMISSIONS\<close>, and the twelve kinds map as follows: add to add, update to
  change, update_geom to change_geom, delete to delete; detail, layer, list, -drf-list and
  markup to read; format_list, mapimage and document to export.
\<close>

theorem entity_kind_permission_table:
  "(\<forall>k \<in> set ENTITY_KINDS. \<exists>p \<in> set ENTITY_PERMISSIONS. get_entity_kind_permission k = Inr p)
   \<and> get_entity_kind_permission ''add'' = Inr ''add''
   \<and> get_entity_kind_permission ''update'' = Inr ''change''
   \<and> get_entity_kind_permission ''update_geom'' = Inr ''change_geom''
   \<and> get_entity_kind_permission ''delete'' = Inr ''delete''
   \<and> get_entity_kind_permission ''detail'' = Inr ''read''
   \<and> get_entity_kind_permission ''layer'' = Inr ''read''
   \<and> get_entity_kind_permission ''list'' = Inr ''read''
   \<and> get_entity_kind_permission ''-drf-list'' = Inr ''read''
   \<and> get_entity_kind_permission ''markup'' = Inr ''read''
   \<and> get_entity_kind_permission ''format_list'' = Inr ''export''
   \<and> get_entity_kind_permission ''mapimage'' = Inr ''export''
   \<and> get_entity_kind_permission ''document'' = Inr ''export''"
  by (simp add: get_entity_kind_permission_def dict_get_def map_of_operations
      set_ENTITY_PERMISSIONS set_ENTITY_KINDS)

theorem entity_kind_permission_table_witness:
  "''mapimage'' \<in> set ENTITY_KINDS \<and> ''export'' \<in> set ENTITY_PERMISSIONS
   \<and> get_entity_kind_permission ''mapimage'' = Inr ''export''"
  using entity_kind_permission_table
  by (simp add: set_ENTITY_PERMISSIONS set_ENTITY_KINDS)

text \<open>
  C8. For an argument that is an entity kind or is itself a permission, the assertion of
  \<open>get_entity_kind_permission\<close> holds and a permission is returned; for every other
  string the assertion fails.
\<close>

theorem entity_kind_permission_assertion:
  "(entity_kind \<in> set ENTITY_KINDS \<or> entity_kind \<in> set ENTITY_PERMISSIONS \<longrightarrow>
      (\<exists>p \<in> set ENTITY_PERMISSIONS. get_entity_kind_permission entity_kind = Inr p))
   \<and> (\<not> (entity_kind \<in> set ENTITY_KINDS \<or> entity_kind \<in> set ENTITY_PERMISSIONS) \<longrightarrow>
      get_entity_kind_permission entity_kind = Inl AssertionError)"
  by (auto simp add: get_entity_kind_permission_def dict_get_def map_of_operations
      set_ENTITY_PERMISSIONS set_ENTITY_KINDS)

theorem entity_kind_permission_assertion_witness:
  "''change_geom'' \<in> set ENTITY_PERMISSIONS \<and> ''change_geom'' \<notin> set ENTITY_KINDS
   \<and> get_entity_kind_permission ''change_geom'' = Inr ''change_geom''
   \<and> ''detail'' \<in> set ENTITY_KINDS \<and> ''detail'' \<notin> set ENTITY_PERMISSIONS
   \<and> get_entity_kind_permission ''detail'' = Inr ''read''
   \<and> ''publish'' \<notin> set ENTITY_KINDS \<and> ''publish'' \<notin> set ENTITY_PERMISSIONS
   \<and> get_entity_kind_permission ''publish'' = Inl AssertionError"
  using entity_kind_permission_assertion [of "''change_geom''"]
    entity_kind_permission_assertion [of "''detail''"]
    entity_kind_permission_assertion [of "''publish''"]
  by (simp add: set_ENTITY_PERMISSIONS set_ENTITY_KINDS get_entity_kind_permission_def
      dict_get_def map_of_operations)

section \<open>Properties of the REST permissions\<close>

lemma format_read:
  "percent_format [''app_label'' \<mapsto> a, ''model_name'' \<mapsto> m] ''%(app_label)s.read_%(model_name)s''
     = Inr (a @ ''.read_'' @ m)"
  by simp

lemma format_add:
  "percent_format [''app_label'' \<mapsto> a, ''model_name'' \<mapsto> m] ''%(app_label)s.add_%(model_name)s''
     = Inr (a @ ''.add_'' @ m)"
  by simp

lemma format_change:
  "percent_format [''app_label'' \<mapsto> a, ''model_name'' \<mapsto> m] ''%(app_label)s.change_%(model_name)s''
     = Inr (a @ ''.change_'' @ m)"
  by simp

lemma format_delete:
  "percent_format [''app_label'' \<mapsto> a, ''model_name'' \<mapsto> m] ''%(app_label)s.delete_%(model_name)s''
     = Inr (a @ ''.delete_'' @ m)"
  by simp

text \<open>
  C5. The methods that \<open>perms_map\<close> knows are GET, OPTIONS, HEAD, POST, PUT, PATCH and
  DELETE, and each requires exactly one permission, made of the model's app label, the
  operation and the model's name: read for GET, OPTIONS and HEAD, add for POST, change for
  PUT and PATCH, delete for DELETE.
\<close>

theorem rest_permissions_by_method:
  "(\<forall>method \<in> set (map fst perms_map). \<exists>perm. get_required_permissions method opts = Inr [perm])
   \<and> map fst perms_map = [''GET'', ''OPTIONS'', ''HEAD'', ''POST'', ''PUT'', ''PATCH'', ''DELETE'']
   \<and> get_required_permissions ''GET'' opts = Inr [app_label opts @ ''.read_'' @ model_name opts]
   \<and> get_required_permissions ''OPTIONS'' opts = Inr [app_label opts @ ''.read_'' @ model_name opts]
   \<and> get_required_permissions ''HEAD'' opts = Inr [app_label opts @ ''.read_'' @ model_name opts]
   \<and> get_required_permissions ''POST'' opts = Inr [app_label opts @ ''.add_'' @ model_name opts]
   \<and> get_required_permissions ''PUT'' opts = Inr [app_label opts @ ''.change_'' @ model_name opts]
   \<and> get_required_permissions ''PATCH'' opts = Inr [app_label opts @ ''.change_'' @ model_name opts]
   \<and> get_required_permissions ''DELETE'' opts = Inr [app_label opts @ ''.delete_'' @ model_name opts]"
  by (simp add: get_required_permissions_def perms_map_def format_read format_add
      format_change format_delete del: percent_format.simps)

theorem rest_permissions_by_method_witness:
  "''PATCH'' \<in> set (map fst perms_map)
   \<and> get_required_permissions ''PATCH'' \<lparr>app_label = ''test_app'', model_name = ''dummymodel''\<rparr>
       = Inr [''test_app.change_dummymodel'']"
  using rest_permissions_by_method [of "\<lparr>app_label = ''test_app'', model_name = ''dummymodel''\<rparr>"]
  by simp

section \<open>Properties of the URLs\<close>

text \<open>
  C7. With \<open>m\<close> the lowercased model name, \<open>get_layer_url\<close> is
  \<open>/api/m/drf/ms.geojson\<close> and \<open>get_datatablelist_url\<close> is \<open>/api/m/drf/ms.datatables\<close>;
  two classes with the same model name have the same two URLs, whatever else differs.
\<close>

theorem urls_from_model_name:
  "get_layer_url opts =
     ''/api/'' @ lower (model_name opts) @ ''/drf/'' @ lower (model_name opts) @ ''s.geojson''
   \<and> get_datatablelist_url opts =
     ''/api/'' @ lower (model_name opts) @ ''/drf/'' @ lower (model_name opts) @ ''s.datatables''
   \<and> (\<forall>opts'. model_name opts' = model_name opts \<longrightarrow>
         get_layer_url opts' = get_layer_url opts
         \<and> get_datatablelist_url opts' = get_datatablelist_url opts)"
  by (simp add: get_layer_url_def get_datatablelist_url_def)

theorem urls_from_model_name_witness:
  "get_layer_url \<lparr>app_label = ''test_app'', model_name = ''DummyModel''\<rparr>
     = ''/api/dummymodel/drf/dummymodels.geojson''
   \<and> get_datatablelist_url \<lparr>app_label = ''test_app'', model_name = ''DummyModel''\<rparr>
     = ''/api/dummymodel/drf/dummymodels.datatables''
   \<and> get_layer_url \<lparr>app_label = ''other_app'', model_name = ''DummyModel''\<rparr>
     = get_layer_url \<lparr>app_label = ''test_app'', model_name = ''DummyModel''\<rparr>"
  using urls_from_model_name [of "\<lparr>app_label = ''test_app'', model_name = ''DummyModel''\<rparr>"]
  by (simp add: lower_def lower_char_def)

section \<open>Properties of the audit log queries\<close>

lemmas example_defs = example_class_def example_object_def alice_def bob_def example_db_def

lemmas example_env_defs = example_conf_def example_helpers_def empty_world_def captured_world_def

lemma sorted_le_last: "sorted xs \<Longrightarrow> x \<in> set xs \<Longrightarrow> x \<le> last xs"
  by (induction xs) auto

lemma last_qs_sort_key:
  assumes "rows \<noteq> []"
  shows "\<exists>r \<in> set rows. last_qs (sort_key k rows) = Some r \<and> (\<forall>r' \<in> set rows. k r' \<le> k r)"
proof -
  let ?ys = "sort_key k rows"
  from assms have ne: "?ys \<noteq> []"
    by (metis length_sort length_0_conv)
  then have mem: "last ?ys \<in> set rows"
    using last_in_set [OF ne] by simp
  have "k r' \<le> k (last ?ys)" if "r' \<in> set rows" for r'
  proof -
    from that have "k r' \<in> set (map k ?ys)" by simp
    then have "k r' \<le> last (map k ?ys)"
      by (rule sorted_le_last [OF sorted_sort_key])
    with ne show ?thesis by (simp add: last_map)
  qed
  with mem ne show ?thesis
    by (auto simp: last_qs_def)
qed

lemma last_qs_order_by:
  assumes "rows \<noteq> []"
  shows "\<exists>r \<in> set rows. last_qs (order_by k rows) = Some r \<and> (\<forall>r' \<in> set rows. k r' \<le> k r)"
  using last_qs_sort_key [OF assms, of k] by (simp add: order_by_def)

lemma last_qs_order_by_empty: "last_qs (order_by k []) = None"
  by (simp add: last_qs_def order_by_def)

lemma related_user_found:
  assumes "u \<in> set (users db)" and "user_pk u = user_id e"
  shows "\<exists>u' \<in> set (users db). user_pk u' = user_id e \<and> related_user db e = Inr u'"
proof (cases "find (\<lambda>u. user_pk u = user_id e) (users db)")
  case None
  with assms show ?thesis by (auto simp: find_None_iff)
next
  case (Some u')
  then have "u' \<in> set (users db) \<and> user_pk u' = user_id e"
    by (auto simp: find_Some_iff)
  with Some show ?thesis by (auto simp: related_user_def)
qed

text \<open>
  C3. When the content type lookup answers \<open>ct\<close>: if the log has no entry with that
  content type, this object's key and the ADDITION flag, \<open>creator\<close> returns \<open>None\<close> and
  raises nothing; if it has one (and every log entry's user is in the user table, as the
  foreign key demands), \<open>creator\<close> returns the user of such an entry whose key is the
  greatest among them.
\<close>

theorem creator_is_user_of_last_addition:
  assumes "get_content_type_id (cls self) = Inr ct"
  shows
    "((\<forall>e \<in> set (log_entries db).
         \<not> (content_type_id e = ct \<and> object_id e = pk self \<and> action_flag e = ADDITION)) \<longrightarrow>
        creator db self = Inr None)
     \<and> ((\<exists>e \<in> set (log_entries db).
            content_type_id e = ct \<and> object_id e = pk self \<and> action_flag e = ADDITION)
         \<and> (\<forall>e \<in> set (log_entries db). \<exists>u \<in> set (users db). user_pk u = user_id e) \<longrightarrow>
        (\<exists>e \<in> set (log_entries db). \<exists>u \<in> set (users db).
            content_type_id e = ct \<and> object_id e = pk self \<and> action_flag e = ADDITION
            \<and> (\<forall>e' \<in> set (log_entries db).
                  content_type_id e' = ct \<and> object_id e' = pk self \<and> action_flag e' = ADDITION
                  \<longrightarrow> le_pk e' \<le> le_pk e)
            \<and> user_pk u = user_id e
            \<and> creator db self = Inr (Some u)))"
proof (intro conjI impI)
  let ?P = "\<lambda>e. content_type_id e = ct \<and> object_id e = pk self \<and> action_flag e = ADDITION"
  let ?M = "filter ?P (log_entries db)"
  {
    assume "\<forall>e \<in> set (log_entries db). \<not> ?P e"
    then have "?M = []" by (simp add: filter_empty_conv)
    with assms show "creator db self = Inr None"
      by (simp add: creator_def last_qs_order_by_empty)
  }
  {
    assume h: "(\<exists>e \<in> set (log_entries db). ?P e)
       \<and> (\<forall>e \<in> set (log_entries db). \<exists>u \<in> set (users db). user_pk u = user_id e)"
    then have "?M \<noteq> []" by (auto simp: filter_empty_conv)
    from last_qs_order_by [OF this, of le_pk]
    obtain e where e: "e \<in> set ?M" "last_qs (order_by le_pk ?M) = Some e"
      "\<forall>e' \<in> set ?M. le_pk e' \<le> le_pk e" by blast
    from e(1) have eP: "e \<in> set (log_entries db)" "?P e" by auto
    with h obtain u0 where "u0 \<in> set (users db)" "user_pk u0 = user_id e" by blast
    from related_user_found [OF this]
    obtain u where u: "u \<in> set (users db)" "user_pk u = user_id e" "related_user db e = Inr u"
      by blast
    from assms e(2) u(3) have "creator db self = Inr (Some u)"
      by (simp add: creator_def)
    with eP u e(3)
    show "\<exists>e \<in> set (log_entries db). \<exists>u \<in> set (users db).
            content_type_id e = ct \<and> object_id e = pk self \<and> action_flag e = ADDITION
            \<and> (\<forall>e' \<in> set (log_entries db).
                  content_type_id e' = ct \<and> object_id e' = pk self \<and> action_flag e' = ADDITION
                  \<longrightarrow> le_pk e' \<le> le_pk e)
            \<and> user_pk u = user_id e
            \<and> creator db self = Inr (Some u)"
      by (intro bexI [of _ e] bexI [of _ u]) auto
  }
qed

theorem creator_is_user_of_last_addition_witness:
  "get_content_type_id (cls example_object) = Inr (Some 7)
   \<and> creator example_db example_object = Inr (Some bob)
   \<and> creator example_db (example_object\<lparr>pk := 99\<rparr>) = Inr None"
  using creator_is_user_of_last_addition [of example_object "Some 7" example_db]
    creator_is_user_of_last_addition [of "example_object\<lparr>pk := 99\<rparr>" "Some 7" example_db]
  by (simp add: example_defs creator_def get_content_type_id_def last_qs_def order_by_def
      related_user_def ADDITION_def)

lemma set_authors_rows:
  "set (authors_rows db ct key) =
     {(u, e). u \<in> set (users db) \<and> e \<in> set (log_entries db) \<and> user_id e = user_pk u
              \<and> content_type_id e = ct \<and> object_id e = key}"
  by (auto simp: authors_rows_def)

text \<open>
  C4. When the content type lookup answers \<open>ct\<close>: if the log has no entry with that
  content type and this object's key, \<open>last_author\<close> returns \<open>None\<close>; if it has one
  (and every log entry's user is in the user table), \<open>last_author\<close> returns a user who
  is one of the distinct \<open>authors\<close> and who wrote the matching entry with the greatest key.
\<close>

theorem last_author_is_user_of_last_entry:
  assumes "get_content_type_id (cls self) = Inr ct"
  shows
    "((\<forall>e \<in> set (log_entries db). \<not> (content_type_id e = ct \<and> object_id e = pk self)) \<longrightarrow>
        last_author db self = Inr None)
     \<and> ((\<exists>e \<in> set (log_entries db). content_type_id e = ct \<and> object_id e = pk self)
         \<and> (\<forall>e \<in> set (log_entries db). \<exists>u \<in> set (users db). user_pk u = user_id e) \<longrightarrow>
        (\<exists>e \<in> set (log_entries db). \<exists>u \<in> set (users db).
            content_type_id e = ct \<and> object_id e = pk self
            \<and> (\<forall>e' \<in> set (log_entries db).
                  content_type_id e' = ct \<and> object_id e' = pk self \<longrightarrow> le_pk e' \<le> le_pk e)
            \<and> user_pk u = user_id e
            \<and> last_author db self = Inr (Some u)
            \<and> (\<exists>us. authors db self = Inr us \<and> distinct us \<and> u \<in> set us)))"
proof (intro conjI impI)
  let ?P = "\<lambda>e. content_type_id e = ct \<and> object_id e = pk self"
  let ?rows = "authors_rows db ct (pk self)"
  let ?sel = "distinct_qs (map (\<lambda>(u, e). (u, le_pk e)) ?rows)"
  have la: "last_author db self = Inr (map_option fst (last_qs (order_by snd ?sel)))"
    using assms by (simp add: last_author_def)
  {
    assume "\<forall>e \<in> set (log_entries db). \<not> ?P e"
    then have "set ?rows = {}" by (auto simp: set_authors_rows)
    then have "?sel = []" by (simp add: distinct_qs_def)
    with la show "last_author db self = Inr None"
      by (simp add: last_qs_order_by_empty)
  }
  {
    assume h: "(\<exists>e \<in> set (log_entries db). ?P e)
       \<and> (\<forall>e \<in> set (log_entries db). \<exists>u \<in> set (users db). user_pk u = user_id e)"
    have joined: "\<exists>u. (u, e) \<in> set ?rows" if "e \<in> set (log_entries db)" "?P e" for e
      using that h by (auto simp: set_authors_rows) metis
    have set_sel: "set ?sel = (\<lambda>(u, e). (u, le_pk e)) ` set ?rows"
      by (simp add: distinct_qs_def)
    from h obtain e0 where "e0 \<in> set (log_entries db)" "?P e0" by blast
    from joined [OF this] have "set ?rows \<noteq> {}" by auto
    with set_sel have "?sel \<noteq> []" by auto
    from last_qs_order_by [OF this, of snd]
    obtain r where r: "r \<in> set ?sel" "last_qs (order_by snd ?sel) = Some r"
      "\<forall>r' \<in> set ?sel. snd r' \<le> snd r" by blast
    from r(1) set_sel obtain u e where ue: "(u, e) \<in> set ?rows" "r = (u, le_pk e)"
      by auto
    from ue(1) have props: "u \<in> set (users db)" "e \<in> set (log_entries db)"
      "user_pk u = user_id e" "?P e"
      by (auto simp: set_authors_rows)
    have maxi: "le_pk e' \<le> le_pk e" if "e' \<in> set (log_entries db)" "?P e'" for e'
    proof -
      from joined [OF that] obtain u' where "(u', e') \<in> set ?rows" by blast
      then have "(u', le_pk e') \<in> set ?sel" using set_sel by force
      with r(3) ue(2) show ?thesis by auto
    qed
    from la r(2) ue(2) have res: "last_author db self = Inr (Some u)" by simp
    have auth: "\<exists>us. authors db self = Inr us \<and> distinct us \<and> u \<in> set us"
      using assms ue(1) by (force simp: authors_def distinct_qs_def)
    from props maxi res auth
    show "\<exists>e \<in> set (log_entries db). \<exists>u \<in> set (users db).
            content_type_id e = ct \<and> object_id e = pk self
            \<and> (\<forall>e' \<in> set (log_entries db).
                  content_type_id e' = ct \<and> object_id e' = pk self \<longrightarrow> le_pk e' \<le> le_pk e)
            \<and> user_pk u = user_id e
            \<and> last_author db self = Inr (Some u)
            \<and> (\<exists>us. authors db self = Inr us \<and> distinct us \<and> u \<in> set us)"
      by (intro bexI [of _ e] bexI [of _ u]) auto
  }
qed

theorem last_author_is_user_of_last_entry_witness:
  "get_content_type_id (cls example_object) = Inr (Some 7)
   \<and> last_author example_db example_object = Inr (Some alice)
   \<and> authors example_db example_object = Inr [alice, bob]
   \<and> last_author example_db (example_object\<lparr>pk := 99\<rparr>) = Inr None"
  using last_author_is_user_of_last_entry [of example_object "Some 7" example_db]
    last_author_is_user_of_last_entry [of "example_object\<lparr>pk := 99\<rparr>" "Some 7" example_db]
  by (simp add: example_defs last_author_def authors_def authors_rows_def
      get_content_type_id_def last_qs_def order_by_def distinct_qs_def)

section \<open>Properties of the latest update\<close>

lemma latest_no_null:
  assumes "fname \<in> set field_names" and "rows \<noteq> []" and "\<forall>r \<in> set rows. \<not> is_null r"
  shows "\<exists>r \<in> set rows. latest nulls_high field_names fname is_null key rows = Inr r
           \<and> (\<forall>r' \<in> set rows. key r' \<le> key r)"
proof -
  from assms(3) have dated: "filter (\<lambda>r. \<not> is_null r) rows = rows"
    and undated: "filter is_null rows = []"
    by (simp_all add: filter_empty_conv)
  from last_qs_sort_key [OF assms(2), of key]
  obtain r where r: "r \<in> set rows" "last_qs (sort_key key rows) = Some r"
    "\<forall>r' \<in> set rows. key r' \<le> key r" by blast
  from r(2) assms(1) have "latest nulls_high field_names fname is_null key rows = Inr r"
    by (simp add: latest_def dated undated Let_def)
  with r(1,3) show ?thesis by blast
qed

lemma latest_empty:
  "latest nulls_high field_names fname is_null key [] =
     (if fname \<in> set field_names then Inl DoesNotExist else Inl FieldError)"
  by (simp add: latest_def last_qs_def)

lemma latest_no_field:
  "fname \<notin> set field_names \<Longrightarrow>
     latest nulls_high field_names fname is_null key rows = Inl FieldError"
  by (simp add: latest_def)

text \<open>
  C6, as amended. \<open>latest_updated\<close> returns \<open>None\<close> and raises nothing when the table
  has no row and when the configured date field is no field of the model. When there are
  rows, the field exists and every row holds a datetime in it, it returns the date of a row
  whose date is the latest, marked as UTC. \<open>LogEntry.latest_updated\<close> returns \<open>None\<close> on
  an empty log and otherwise the action time of an entry whose action time is the latest.
\<close>

theorem latest_updated_none_or_latest_date:
  "(objects = [] \<longrightarrow> latest_updated nulls_high conf c objects = Inr None)
   \<and> (DATE_UPDATE_FIELD_NAME conf \<notin> set (cls_field_names c) \<longrightarrow>
        latest_updated nulls_high conf c objects = Inr None)
   \<and> (objects \<noteq> [] \<and> DATE_UPDATE_FIELD_NAME conf \<in> set (cls_field_names c)
        \<and> (\<forall>r \<in> set objects. \<exists>d. attrs r (DATE_UPDATE_FIELD_NAME conf) = Some (DateTimeValue d)) \<longrightarrow>
        (\<exists>r \<in> set objects. \<exists>d.
            attrs r (DATE_UPDATE_FIELD_NAME conf) = Some (DateTimeValue d)
            \<and> (\<forall>r' \<in> set objects. \<forall>d'.
                  attrs r' (DATE_UPDATE_FIELD_NAME conf) = Some (DateTimeValue d') \<longrightarrow>
                  clock d' \<le> clock d)
            \<and> latest_updated nulls_high conf c objects = Inr (Some (replace_tzinfo d UTC))))
   \<and> (log_entries db = [] \<longrightarrow> LogEntry_latest_updated nulls_high db = Inr None)
   \<and> (log_entries db \<noteq> [] \<longrightarrow>
        (\<exists>e \<in> set (log_entries db).
            (\<forall>e' \<in> set (log_entries db). clock (action_time e') \<le> clock (action_time e))
            \<and> LogEntry_latest_updated nulls_high db = Inr (Some (action_time e))))"
proof (intro conjI impI)
  let ?f = "DATE_UPDATE_FIELD_NAME conf"
  show "latest_updated nulls_high conf c objects = Inr None" if "objects = []"
    using that by (simp add: latest_updated_def latest_empty)
  show "latest_updated nulls_high conf c objects = Inr None" if "?f \<notin> set (cls_field_names c)"
    using that by (simp add: latest_updated_def latest_no_field)
  show "LogEntry_latest_updated nulls_high db = Inr None" if "log_entries db = []"
    using that by (simp add: LogEntry_latest_updated_def latest_empty LogEntry_field_names_def)
  {
    assume h: "objects \<noteq> [] \<and> ?f \<in> set (cls_field_names c)
        \<and> (\<forall>r \<in> set objects. \<exists>d. attrs r ?f = Some (DateTimeValue d))"
    then have nn: "\<forall>r \<in> set objects. \<not> (column ?f r = NoneValue)"
      by (auto simp: column_def)
    from h nn latest_no_null [of ?f "cls_field_names c" objects "\<lambda>r. column ?f r = NoneValue"
        nulls_high "\<lambda>r. db_key (column ?f r)"]
    obtain r where r: "r \<in> set objects"
      "latest nulls_high (cls_field_names c) ?f (\<lambda>r. column ?f r = NoneValue)
         (\<lambda>r. db_key (column ?f r)) objects = Inr r"
      "\<forall>r' \<in> set objects. db_key (column ?f r') \<le> db_key (column ?f r)"
      by blast
    from h r(1) obtain d where d: "attrs r ?f = Some (DateTimeValue d)" by blast
    have "clock d' \<le> clock d" if "r' \<in> set objects" "attrs r' ?f = Some (DateTimeValue d')"
      for r' d'
    proof -
      from r(3) that(1) have "db_key (column ?f r') \<le> db_key (column ?f r)" by blast
      with that(2) d show ?thesis
        by (auto simp add: column_def db_key_def less_eq_prod_def)
    qed
    moreover from r(2) d
    have "latest_updated nulls_high conf c objects = Inr (Some (replace_tzinfo d UTC))"
      by (simp add: latest_updated_def get_date_update_def)
    ultimately
    show "\<exists>r \<in> set objects. \<exists>d.
            attrs r ?f = Some (DateTimeValue d)
            \<and> (\<forall>r' \<in> set objects. \<forall>d'.
                  attrs r' ?f = Some (DateTimeValue d') \<longrightarrow> clock d' \<le> clock d)
            \<and> latest_updated nulls_high conf c objects = Inr (Some (replace_tzinfo d UTC))"
      using r(1) d by blast
  }
  {
    assume ne: "log_entries db \<noteq> []"
    have "''action_time'' \<in> set LogEntry_field_names"
      by (simp add: LogEntry_field_names_def)
    from latest_no_null [OF this ne, of "\<lambda>e. False" nulls_high "\<lambda>e. clock (action_time e)"]
    obtain e where e: "e \<in> set (log_entries db)"
      "latest nulls_high LogEntry_field_names ''action_time'' (\<lambda>e. False)
         (\<lambda>e. clock (action_time e)) (log_entries db) = Inr e"
      "\<forall>e' \<in> set (log_entries db). clock (action_time e') \<le> clock (action_time e)"
      by auto
    from e(2) have "LogEntry_latest_updated nulls_high db = Inr (Some (action_time e))"
      by (simp add: LogEntry_latest_updated_def LogEntry_get_date_update_def)
    with e(1,3)
    show "\<exists>e \<in> set (log_entries db).
            (\<forall>e' \<in> set (log_entries db). clock (action_time e') \<le> clock (action_time e))
            \<and> LogEntry_latest_updated nulls_high db = Inr (Some (action_time e))"
      by blast
  }
qed

theorem latest_updated_none_or_latest_date_witness:
  "latest_updated True example_conf example_class example_objects
     = Inr (Some \<lparr>clock = 9000, tz = Some UTC\<rparr>)
   \<and> latest_updated True example_conf example_class [] = Inr None
   \<and> latest_updated True (example_conf\<lparr>DATE_UPDATE_FIELD_NAME := ''modified''\<rparr>) example_class
       example_objects = Inr None
   \<and> LogEntry_latest_updated True example_db = Inr (Some \<lparr>clock = 500, tz = Some UTC\<rparr>)
   \<and> LogEntry_latest_updated True \<lparr>users = [], log_entries = []\<rparr> = Inr None"
  using latest_updated_none_or_latest_date
      [of example_objects True example_conf example_class example_db]
    latest_updated_none_or_latest_date
      [of "[]" True example_conf example_class "\<lparr>users = [], log_entries = []\<rparr>"]
    latest_updated_none_or_latest_date
      [of example_objects True "example_conf\<lparr>DATE_UPDATE_FIELD_NAME := ''modified''\<rparr>"
        example_class example_db]
  by (simp add: example_objects_def example_defs example_env_defs latest_updated_def
      LogEntry_latest_updated_def LogEntry_get_date_update_def LogEntry_field_names_def
      latest_def last_qs_def column_def db_key_def get_date_update_def replace_tzinfo_def)

text \<open>
  Without the condition on the rows the last clause of C6 fails. A table with a dated row
  and a row whose date is null, on a database that sorts null first in descending order:
  the field exists, the table is not empty, and the answer is \<open>None\<close>, not the date of
  the dated row. And with the name of a string field configured, the call raises TypeError.
\<close>

theorem latest_updated_counterexample:
  "[example_object, example_object\<lparr>pk := 45, attrs := [''date_update'' \<mapsto> NoneValue]\<rparr>] \<noteq> []
   \<and> DATE_UPDATE_FIELD_NAME example_conf \<in> set (cls_field_names example_class)
   \<and> attrs example_object (DATE_UPDATE_FIELD_NAME example_conf)
       = Some (DateTimeValue \<lparr>clock = 5000, tz = None\<rparr>)
   \<and> latest_updated True example_conf example_class
       [example_object, example_object\<lparr>pk := 45, attrs := [''date_update'' \<mapsto> NoneValue]\<rparr>]
       = Inr None
   \<and> example_objects \<noteq> []
   \<and> ''name'' \<in> set (cls_field_names example_class)
   \<and> latest_updated True (example_conf\<lparr>DATE_UPDATE_FIELD_NAME := ''name''\<rparr>) example_class
       example_objects = Inl TypeError"
  by (simp add: example_objects_def example_defs example_env_defs latest_updated_def
      latest_def last_qs_def column_def db_key_def get_date_update_def)

section \<open>Properties of the map image\<close>

lemma example_path:
  "get_map_image_path example_conf example_object empty_world =
     (''/srv/media/maps/dummymodel-42.png'',
      \<lparr>dirs = {''/srv'', ''/srv/media'', ''/srv/media/maps''}, files = Map.empty\<rparr>)"
  by (auto simp add: get_map_image_path_def example_env_defs example_defs os_path_join_def
      os_path_exists_def os_makedirs_def path_prefixes_def str_nat.simps upt_rec)

lemma example_path_captured:
  "get_map_image_path example_conf example_object captured_world =
     (''/srv/media/maps/dummymodel-42.png'', captured_world)"
  by (simp add: get_map_image_path_def example_env_defs example_defs os_path_join_def
      os_path_exists_def str_nat.simps)






lemma float_mul_Finite [simp]: "float_mul Finite (Finite a) (Finite b) = Finite (a * b)"
  by (simp add: float_mul_def)

lemma float_div_Finite [simp]: "float_div Finite (Finite a) (Finite b) = Finite (a / b)"
  by (simp add: float_div_def)

lemma int_to_float_Finite [simp]: "int_to_float Finite n = Inr (Finite (of_int n))"
  by (simp add: int_to_float_def)

lemma bind_error_Inr [simp]: "bind_error (Inr v) f = f v"
  by (simp add: bind_error_def)

lemma bind_error_Inl [simp]: "bind_error (Inl e) f = Inl e"
  by (simp add: bind_error_def)







text \<open>
  C9. For an object with a geometry whose extent in SRID 3857 has its longer side equal to
  zero, \<open>prepare_map_image\<close> raises nothing, whatever the configured size (the zoom and
  size arithmetic, which divides by the configured size, is not reached): it returns
  \<open>False\<close> when the file is up to date, and otherwise captures the map with the
  configured \<open>MAP_CAPTURE_SIZE\<close> as size and returns \<open>True\<close>. (The date of the last
  update, which the check of the file is given, is the one \<open>get_date_update\<close> returns.)
\<close>

theorem degenerate_extent_uses_configured_size:
  assumes "get_geom conf self = Some g"
    and "extent_in g 3857 = (x0, y0, x1, y1)"
    and "max (x1 - x0) (y1 - y0) = 0"
    and "get_map_image_path conf self w = (path, w1)"
    and "get_date_update conf self = Inr date_update"
    and "is_file_uptodate h path date_update w1 = (uptodate, w2)"
  shows "prepare_map_image h conf self rooturl w =
           (if uptodate then (Inr False, w2)
            else (Inr True,
                  capture_map_image h (smart_urljoin h rooturl (get_detail_url h self)) path
                    (MAP_CAPTURE_SIZE conf) capture_map_image_waitfor (get_printcontext self) w2))
         \<and> (\<forall>e. fst (prepare_map_image h conf self rooturl w) \<noteq> Inl e)"
proof -
  from assms(1) have "geom_attrs self (GEOM_FIELD_NAME conf) = Some (Some g)"
    by (auto simp: get_geom_def split: option.splits)
  with assms(2) have ext: "get_map_image_extent conf self 3857 = Inr (x0, y0, x1, y1)"
    by (simp add: get_map_image_extent_def)
  from assms(1,3,4,5,6) ext
  have eq: "prepare_map_image h conf self rooturl w =
           (if uptodate then (Inr False, w2)
            else (Inr True,
                  capture_map_image h (smart_urljoin h rooturl (get_detail_url h self)) path
                    (MAP_CAPTURE_SIZE conf) capture_map_image_waitfor (get_printcontext self) w2))"
    by (simp add: prepare_map_image_def)
  then show ?thesis by simp
qed

theorem degenerate_extent_uses_configured_size_witness:
  "get_geom example_conf example_object = Some \<lparr>extent_in = (\<lambda>srid. (3, 4, 3, 4))\<rparr>
   \<and> max ((3::real) - 3) (4 - 4) = 0
   \<and> get_date_update example_conf example_object = Inr (Some \<lparr>clock = 5000, tz = Some UTC\<rparr>)
   \<and> fst (prepare_map_image example_helpers example_conf example_object ''http://localhost''
            empty_world) = Inr True
   \<and> files (snd (prepare_map_image example_helpers example_conf example_object
                    ''http://localhost'' empty_world))
        ''/srv/media/maps/dummymodel-42.png'' = Some (OtherContent 800)
   \<and> capture_zoom_size (float_round example_helpers) 0 1 = Inl ZeroDivisionError
   \<and> fst (prepare_map_image example_helpers (example_conf\<lparr>MAP_CAPTURE_SIZE := 0\<rparr>)
            example_object ''http://localhost'' empty_world) = Inr True"
  using degenerate_extent_uses_configured_size
      [where conf = example_conf and self = example_object
         and g = "\<lparr>extent_in = (\<lambda>srid. (3, 4, 3, 4))\<rparr>"
         and ?x0.0 = 3 and ?y0.0 = 4 and ?x1.0 = 3 and ?y1.0 = 4
         and w = empty_world and h = example_helpers
         and path = "''/srv/media/maps/dummymodel-42.png''"
         and ?w1.0 = "\<lparr>dirs = {''/srv'', ''/srv/media'', ''/srv/media/maps''}, files = Map.empty\<rparr>"
         and date_update = "Some \<lparr>clock = 5000, tz = Some UTC\<rparr>"
         and uptodate = False
         and ?w2.0 = "\<lparr>dirs = {''/srv'', ''/srv/media'', ''/srv/media/maps''}, files = Map.empty\<rparr>"
         and rooturl = "''http://localhost''"]
    degenerate_extent_uses_configured_size
      [where conf = "example_conf\<lparr>MAP_CAPTURE_SIZE := 0\<rparr>" and self = example_object
         and g = "\<lparr>extent_in = (\<lambda>srid. (3, 4, 3, 4))\<rparr>"
         and ?x0.0 = 3 and ?y0.0 = 4 and ?x1.0 = 3 and ?y1.0 = 4
         and w = empty_world and h = example_helpers
         and path = "''/srv/media/maps/dummymodel-42.png''"
         and ?w1.0 = "\<lparr>dirs = {''/srv'', ''/srv/media'', ''/srv/media/maps''}, files = Map.empty\<rparr>"
         and date_update = "Some \<lparr>clock = 5000, tz = Some UTC\<rparr>"
         and uptodate = False
         and ?w2.0 = "\<lparr>dirs = {''/srv'', ''/srv/media'', ''/srv/media/maps''}, files = Map.empty\<rparr>"
         and rooturl = "''http://localhost''"]
    example_path
  by (simp add: get_geom_def get_date_update_def capture_zoom_size_def py_truediv_def
      get_map_image_path_def replace_tzinfo_def example_defs example_env_defs)

text \<open>
  C10. When the check finds the image file up to date with the date \<open>get_date_update\<close>
  returns, \<open>prepare_map_image\<close> returns \<open>False\<close> and hands back the file system as the
  check left it: no image is drawn or captured. Finding the path changes no file, and
  changes nothing at all when the maps folder exists; so if the check itself changes
  nothing, the files are as they were.
\<close>

theorem uptodate_image_is_left_alone:
  assumes "get_map_image_path conf self w = (path, w1)"
    and "get_date_update conf self = Inr date_update"
    and "is_file_uptodate h path date_update w1 = (True, w2)"
  shows "prepare_map_image h conf self rooturl w = (Inr False, w2)
         \<and> files w1 = files w
         \<and> (os_path_exists w (os_path_join (MEDIA_ROOT conf) ''maps'') \<longrightarrow> w1 = w)
         \<and> (w2 = w1 \<longrightarrow> files (snd (prepare_map_image h conf self rooturl w)) = files w)"
proof -
  from assms have res: "prepare_map_image h conf self rooturl w = (Inr False, w2)"
    by (simp add: prepare_map_image_def)
  from assms(1) have f: "files w1 = files w"
    by (auto simp: get_map_image_path_def Let_def os_makedirs_def split: if_splits)
  from assms(1) have "os_path_exists w (os_path_join (MEDIA_ROOT conf) ''maps'') \<longrightarrow> w1 = w"
    by (auto simp: get_map_image_path_def Let_def)
  with res f show ?thesis by simp
qed

theorem uptodate_image_is_left_alone_witness:
  "get_map_image_path example_conf example_object captured_world
     = (''/srv/media/maps/dummymodel-42.png'', captured_world)
   \<and> get_date_update example_conf example_object = Inr (Some \<lparr>clock = 5000, tz = Some UTC\<rparr>)
   \<and> is_file_uptodate example_helpers ''/srv/media/maps/dummymodel-42.png''
        (Some \<lparr>clock = 5000, tz = Some UTC\<rparr>) captured_world = (True, captured_world)
   \<and> prepare_map_image example_helpers example_conf example_object ''http://localhost''
        captured_world = (Inr False, captured_world)"
  using uptodate_image_is_left_alone
      [where conf = example_conf and self = example_object and w = captured_world
         and path = "''/srv/media/maps/dummymodel-42.png''" and ?w1.0 = captured_world
         and date_update = "Some \<lparr>clock = 5000, tz = Some UTC\<rparr>"
         and ?w2.0 = captured_world and h = example_helpers and rooturl = "''http://localhost''"]
    example_path_captured
  by (simp add: get_date_update_def replace_tzinfo_def example_helpers_def captured_world_def
      example_object_def example_conf_def)

end
